theory Spec2Isabelle
  imports Main "HOL-Library.Sublist"
begin

section \<open>Python values, errors and dictionaries\<close>

text \<open>
  The engine is written in Python. Documents loaded from YAML and the dictionaries passed
  between the components hold dynamically typed scalars; \<open>pyval\<close> is the scalar part of
  that universe. A raised exception is a value of \<open>py_error\<close>, carrying the text that
  \<open>str(e)\<close> yields, and a function that may raise returns \<open>py_error + 'a\<close>.
\<close>

datatype pyval = PNone | PBool bool | PInt int | PStr string

datatype py_error =
    RecursionError
  | TypeError string
  | AttributeError string
  | ValueError string
  | OtherError string

text \<open>A \<open>dict\<close> keeps insertion order: assigning to an existing key keeps its position.\<close>

type_synonym ('k, 'v) dict = "('k \<times> 'v) list"

fun dict_set :: "'k \<Rightarrow> 'v \<Rightarrow> ('k, 'v) dict \<Rightarrow> ('k, 'v) dict" where
  "dict_set k v [] = [(k, v)]"
| "dict_set k v ((k', v') # d) =
     (if k = k' then (k, v) # d else (k', v') # dict_set k v d)"

definition dict_get :: "('k, 'v) dict \<Rightarrow> 'k \<Rightarrow> 'v \<Rightarrow> 'v" where
  "dict_get d k dflt = (case map_of d k of None \<Rightarrow> dflt | Some v \<Rightarrow> v)"

definition dict_values :: "('k, 'v) dict \<Rightarrow> 'v list" where
  "dict_values d = map snd d"


section \<open>Inventory (core/inventory.py)\<close>

text \<open>
  \<open>Host\<close> and \<open>Group\<close> are dataclasses. The fields of a \<open>Host\<close> are filled from the YAML
  mapping without conversion, so all but the name hold a \<open>pyval\<close>. A \<open>Group\<close> holds its
  child groups as objects; \<open>get_group_hosts\<close> follows them by name through the table
  \<open>Inventory.groups\<close>.
\<close>

record inv_host =
  name :: string
  ansible_host :: pyval
  ansible_user :: pyval
  ansible_port :: pyval
  ansible_ssh_private_key_file :: pyval
  splunk_type :: pyval
  splunk_version :: pyval
  os_family :: pyval
  os_version :: pyval
  cpu_arch :: pyval
  memory_gb :: pyval
  disk_gb :: pyval
  variables :: "(string, pyval) dict"

datatype group =
  Group (group_name: string) (group_hosts: "inv_host list") (children: "group list")
        (group_variables: "(string, pyval) dict")

text \<open>The loaded YAML document: a group mapping with the keys \<open>hosts\<close>, \<open>children\<close>, \<open>vars\<close>
  (an absent key reads as the empty mapping, as \<open>group_data.get(key, {})\<close> does).\<close>

datatype group_data =
  GroupData (gd_hosts: "(string, (string, pyval) dict) dict")
            (gd_children: "(string, group_data) dict")
            (gd_vars: "(string, pyval) dict")

record inventory =
  hosts :: "(string, inv_host) dict"
  groups :: "(string, group) dict"
  all_hosts :: "inv_host list"

definition empty_inventory :: inventory where
  "empty_inventory = \<lparr>hosts = [], groups = [], all_hosts = []\<rparr>"

definition host_fields :: "string list" where
  "host_fields = [''ansible_host'', ''ansible_user'', ''ansible_port'',
     ''ansible_ssh_private_key_file'', ''splunk_type'', ''splunk_version'', ''os_family'',
     ''os_version'', ''cpu_arch'', ''memory_gb'', ''disk_gb'']"

definition parse_host :: "string \<Rightarrow> (string, pyval) dict \<Rightarrow> inv_host" where
  "parse_host host_name host_data =
     \<lparr>name = host_name,
      ansible_host = dict_get host_data ''ansible_host'' (PStr host_name),
      ansible_user = dict_get host_data ''ansible_user'' (PStr ''root''),
      ansible_port = dict_get host_data ''ansible_port'' (PInt 22),
      ansible_ssh_private_key_file = dict_get host_data ''ansible_ssh_private_key_file'' PNone,
      splunk_type = dict_get host_data ''splunk_type'' PNone,
      splunk_version = dict_get host_data ''splunk_version'' PNone,
      os_family = dict_get host_data ''os_family'' PNone,
      os_version = dict_get host_data ''os_version'' PNone,
      cpu_arch = dict_get host_data ''cpu_arch'' PNone,
      memory_gb = dict_get host_data ''memory_gb'' PNone,
      disk_gb = dict_get host_data ''disk_gb'' PNone,
      variables = filter (\<lambda>(k, v). k \<notin> set host_fields) host_data\<rparr>"

text \<open>The loop over \<open>hosts_data.items()\<close> of \<open>_parse_group\<close>: every host is appended to
  the group and stored in \<open>Inventory.hosts\<close> under its name.\<close>

fun parse_hosts ::
  "(string, (string, pyval) dict) dict \<Rightarrow> inv_host list \<Rightarrow> inventory \<Rightarrow> inv_host list \<times> inventory"
where
  "parse_hosts [] acc iv = (acc, iv)"
| "parse_hosts ((host_name, host_data) # rest) acc iv =
     (let host = parse_host host_name host_data
      in parse_hosts rest (acc @ [host]) (iv\<lparr>hosts := dict_set host_name host (hosts iv)\<rparr>))"

text \<open>\<open>_parse_group\<close> and its loop over \<open>children_data.items()\<close>. The child is stored under
  its name when the recursive call returns, and the group itself is stored last, so a
  group overwrites a descendant of the same name.\<close>

fun parse_group :: "string \<Rightarrow> group_data \<Rightarrow> inventory \<Rightarrow> group \<times> inventory"
and parse_children ::
  "(string, group_data) dict \<Rightarrow> group list \<Rightarrow> inventory \<Rightarrow> group list \<times> inventory"
where
  "parse_group gname (GroupData hosts_data children_data vars) iv =
     (case parse_hosts hosts_data [] iv of (hs, iv1) \<Rightarrow>
      case parse_children children_data [] iv1 of (chs, iv2) \<Rightarrow>
        (let grp = Group gname hs chs vars
         in (grp, iv2\<lparr>groups := dict_set gname grp (groups iv2)\<rparr>)))"
| "parse_children [] acc iv = (acc, iv)"
| "parse_children ((child_name, child_data) # rest) acc iv =
     (case parse_group child_name child_data iv of (child_group, iv1) \<Rightarrow>
        parse_children rest (acc @ [child_group])
          (iv1\<lparr>groups := dict_set child_name child_group (groups iv1)\<rparr>))"

text \<open>\<open>_parse_inventory\<close>: the argument is the mapping under the key \<open>all\<close>.\<close>

definition parse_inventory :: "group_data \<Rightarrow> inventory \<Rightarrow> inventory" where
  "parse_inventory all_hosts_data iv =
     (case parse_group ''all'' all_hosts_data iv of (g, iv1) \<Rightarrow>
        iv1\<lparr>all_hosts := dict_values (hosts iv1)\<rparr>)"

text \<open>\<open>add_group\<close> stores the group under its name, whatever its children are.\<close>

definition add_group :: "group \<Rightarrow> inventory \<Rightarrow> inventory" where
  "add_group grp iv = iv\<lparr>groups := dict_set (group_name grp) grp (groups iv)\<rparr>"

text \<open>
  \<open>get_group_hosts\<close> calls itself for every child, by the child's name. Python bounds the
  depth of the call stack (\<open>sys.getrecursionlimit()\<close>, 1000 by default) and raises
  \<open>RecursionError\<close> beyond it; the first argument is the number of frames still
  available. A \<open>Group\<close> object is always truthy, so \<open>if not group\<close> tests for a missing
  table entry only.
\<close>

fun get_group_hosts :: "nat \<Rightarrow> (string, group) dict \<Rightarrow> string \<Rightarrow> py_error + inv_host list"
and child_loop ::
  "nat \<Rightarrow> (string, group) dict \<Rightarrow> group list \<Rightarrow> inv_host list \<Rightarrow> py_error + inv_host list"
where
  "get_group_hosts 0 gs g = Inl RecursionError"
| "get_group_hosts (Suc depth) gs g =
     (case map_of gs g of
        None \<Rightarrow> Inr []
      | Some grp \<Rightarrow> child_loop depth gs (children grp) (group_hosts grp))"
| "child_loop depth gs [] hs = Inr hs"
| "child_loop depth gs (child_group # rest) hs =
     (case get_group_hosts depth gs (group_name child_group) of
        Inl e \<Rightarrow> Inl e
      | Inr chs \<Rightarrow> child_loop depth gs rest (hs @ chs))"

text \<open>The child references that the recursion follows, and the effective host set of the
  data model: the hosts of the group and of every group reachable from it.\<close>

definition child_rel :: "(string, group) dict \<Rightarrow> (string \<times> string) set" where
  "child_rel gs =
     {(g, c). \<exists>grp. map_of gs g = Some grp \<and> c \<in> group_name ` set (children grp)}"



definition nested_same_name_doc :: group_data where
  "nested_same_name_doc =
     GroupData []
       [(''web'', GroupData [] [(''web'', GroupData [(''web-01'', [])] [] [])] [])] []"


section \<open>Secrets (core/secrets.py)\<close>

text \<open>
  The three backends. The environment backend reads \<open>os.environ\<close>; the file backend
  answers from its decrypted table (\<open>_load_secrets\<close> catches every failure of its own and
  leaves the table empty); the Vault backend talks to a server that may be unreachable,
  may refuse the token, or serves a key-value store.
\<close>

datatype vault_server =
    Unreachable
  | Unauthenticated
  | Serving "(string, (string, string) dict) dict"

datatype backend =
    EnvironmentSecretsBackend string
  | FileSecretsBackend "(string, string) dict"
  | VaultSecretsBackend vault_server string

record secrets_manager =
  backends :: "(string, backend option) dict"
  default_backend :: string

definition upper_char :: "char \<Rightarrow> char" where
  "upper_char c =
     (case map_of (zip ''abcdefghijklmnopqrstuvwxyz'' ''ABCDEFGHIJKLMNOPQRSTUVWXYZ'') c of
        None \<Rightarrow> c
      | Some u \<Rightarrow> u)"

definition upper :: "string \<Rightarrow> string" where
  "upper s = map upper_char s"

text \<open>\<open>VaultSecretsBackend._get_client\<close> and the \<open>hvac\<close> read: both raise when the server
  cannot be reached, the first also when the token is refused, the second when the path
  does not exist.\<close>

definition get_client :: "vault_server \<Rightarrow> py_error + (string, (string, string) dict) dict" where
  "get_client srv =
     (case srv of
        Unreachable \<Rightarrow> Inl (OtherError ''connection refused'')
      | Unauthenticated \<Rightarrow> Inl (OtherError ''Vault authentication failed'')
      | Serving kv \<Rightarrow> Inr kv)"

definition read_secret_version ::
  "(string, (string, string) dict) dict \<Rightarrow> string \<Rightarrow> py_error + (string, string) dict" where
  "read_secret_version kv secret_path =
     (case map_of kv secret_path of
        None \<Rightarrow> Inl (OtherError ''InvalidPath'')
      | Some d \<Rightarrow> Inr d)"

text \<open>\<open>get_secret\<close> of each backend. The Vault backend wraps its body in
  \<open>try ... except Exception: return None\<close>.\<close>

definition backend_get_secret ::
  "(string, string) dict \<Rightarrow> backend \<Rightarrow> string \<Rightarrow> py_error + string option" where
  "backend_get_secret environ b key =
     (case b of
        EnvironmentSecretsBackend env_prefix \<Rightarrow> Inr (map_of environ (env_prefix @ upper key))
      | FileSecretsBackend secrets \<Rightarrow> Inr (map_of secrets key)
      | VaultSecretsBackend srv vault_path \<Rightarrow>
          (case get_client srv of
             Inl e \<Rightarrow> Inr None
           | Inr client \<Rightarrow>
               (case read_secret_version client (vault_path @ ''/'' @ key) of
                  Inl e \<Rightarrow> Inr None
                | Inr d \<Rightarrow> Inr (map_of d ''value''))))"

text \<open>\<open>SecretsManager.get_secret\<close>. \<open>backend or self.default_backend\<close> falls back for
  \<open>None\<close> and for the empty string; an exception of the backend is logged and swallowed.\<close>

definition get_secret ::
  "secrets_manager \<Rightarrow> (string, string) dict \<Rightarrow> string \<Rightarrow> string option
     \<Rightarrow> py_error + string option" where
  "get_secret mgr environ key backend_arg =
     (let backend_name =
            (case backend_arg of
               None \<Rightarrow> default_backend mgr
             | Some b \<Rightarrow> if b = [] then default_backend mgr else b)
      in case map_of (backends mgr) backend_name of
           None \<Rightarrow> Inr None
         | Some None \<Rightarrow> Inr None
         | Some (Some backend_instance) \<Rightarrow>
             (case backend_get_secret environ backend_instance key of
                Inl e \<Rightarrow> Inr None
              | Inr v \<Rightarrow> Inr v))"

text \<open>A manager whose Vault backend is configured, against a server that is down and
  against one that is up but does not hold the key.\<close>

definition vault_manager :: "vault_server \<Rightarrow> secrets_manager" where
  "vault_manager srv =
     \<lparr>backends = [(''env'', Some (EnvironmentSecretsBackend ''SIEMPLY_'')),
                  (''file'', Some (FileSecretsBackend [])),
                  (''vault'', Some (VaultSecretsBackend srv ''secret/siemply''))],
      default_backend = ''vault''\<rparr>"


section \<open>Remote execution (core/ssh_executor.py)\<close>

text \<open>
  \<open>SSHResult\<close> is a dataclass; the elapsed time is left out. What \<open>get_connection\<close> and
  \<open>connection.run(command, timeout=timeout)\<close> do on the remote side is a parameter of
  the model: the command exits, the deadline passes (asyncssh raises its \<open>TimeoutError\<close>,
  which carries the output captured so far), or another exception is raised.
\<close>

record ssh_result =
  exit_code :: int
  stdout :: string
  stderr :: string

datatype run_outcome =
    Exited int string string
  | TimedOut string string
  | Raised string

type_synonym host = "(string, pyval) dict"

type_synonym 'w remote = "'w \<Rightarrow> host \<Rightarrow> string \<Rightarrow> int \<Rightarrow> run_outcome \<times> 'w"

function str_nat :: "nat \<Rightarrow> string" where
  "str_nat n =
     (if n < 10 then [''0123456789'' ! n]
      else str_nat (n div 10) @ [''0123456789'' ! (n mod 10)])"
  by pat_completeness auto
termination
  by (relation "measure id") auto

definition str_int :: "int \<Rightarrow> string" where
  "str_int i = (if i < 0 then CHR ''-'' # str_nat (nat (- i)) else str_nat (nat i))"

definition execute_command ::
  "'w remote \<Rightarrow> host \<Rightarrow> string \<Rightarrow> int \<Rightarrow> 'w \<Rightarrow> ssh_result \<times> 'w" where
  "execute_command remote h command timeout w =
     (case remote w h command timeout of
        (Exited exit_status out err, w') \<Rightarrow>
          (\<lparr>exit_code = exit_status, stdout = out, stderr = err\<rparr>, w')
      | (TimedOut partial_out partial_err, w') \<Rightarrow>
          (\<lparr>exit_code = 124, stdout = [],
            stderr = ''Command timed out after '' @ str_int timeout @ '' seconds''\<rparr>, w')
      | (Raised msg, w') \<Rightarrow>
          (\<lparr>exit_code = 1, stdout = [], stderr = msg\<rparr>, w'))"

text \<open>A remote side on which every command prints a line and then runs into its deadline.\<close>

definition slow_remote :: "unit remote" where
  "slow_remote w h command timeout = (TimedOut ''step 1 done'' ''warning: slow disk'', w)"


section \<open>Task engine (core/task_runner.py) and audit log (core/audit.py)\<close>

text \<open>Truth value and \<open>str()\<close> of a scalar, as \<open>if x:\<close> and an f-string use them.\<close>

fun truthy :: "pyval \<Rightarrow> bool" where
  "truthy PNone = False"
| "truthy (PBool b) = b"
| "truthy (PInt i) = (i \<noteq> 0)"
| "truthy (PStr s) = (s \<noteq> [])"

fun py_str :: "pyval \<Rightarrow> string" where
  "py_str PNone = ''None''"
| "py_str (PBool b) = (if b then ''True'' else ''False'')"
| "py_str (PInt i) = str_int i"
| "py_str (PStr s) = s"

text \<open>A value between single quotes, as in \<open>f"'{x}'"\<close>.\<close>

definition quoted :: "pyval \<Rightarrow> string" where
  "quoted v = [CHR 0x27] @ py_str v @ [CHR 0x27]"

fun error_str :: "py_error \<Rightarrow> string" where
  "error_str RecursionError = ''maximum recursion depth exceeded''"
| "error_str (TypeError m) = m"
| "error_str (AttributeError m) = m"
| "error_str (ValueError m) = m"
| "error_str (OtherError m) = m"

text \<open>\<open>str.replace(old, new)\<close> for a non-empty \<open>old\<close>: all occurrences, left to right, no
  overlaps. The first argument counts the characters of a match still to be dropped.\<close>

fun replace_from :: "nat \<Rightarrow> string \<Rightarrow> string \<Rightarrow> string \<Rightarrow> string" where
  "replace_from k old new [] = []"
| "replace_from (Suc k) old new (c # cs) = replace_from k old new cs"
| "replace_from 0 old new (c # cs) =
     (if prefix old (c # cs) then new @ replace_from (length old - 1) old new cs
      else c # replace_from 0 old new cs)"

definition str_replace :: "string \<Rightarrow> string \<Rightarrow> string \<Rightarrow> string" where
  "str_replace s old new = replace_from 0 old new s"

text \<open>
  A task of the playbook is a mapping; the record lists the keys that the engine and its
  sibling executors read, \<open>None\<close> standing for an absent key. \<open>RunConfig\<close> and \<open>TaskResult\<close>
  are dataclasses (the fields of \<open>TaskResult\<close> carry the prefix \<open>tr_\<close>; times are left
  out). A handler returns a mapping with the keys \<open>status\<close>, \<open>output\<close>, \<open>error\<close>,
  \<open>changed\<close>, \<open>facts\<close>, or \<open>None\<close> when its body falls through.
\<close>

record task_config =
  tc_name :: "string option"
  tc_task :: "string option"
  tc_args :: "(string, pyval) dict option"
  tc_when :: "string option"
  tc_only_if :: "string option"
  tc_tags :: "string list option"
  tc_ignore_errors :: "bool option"

record run_config =
  limit :: "int option"
  forks :: int
  batch_size :: int
  batch_delay :: int
  tags :: "string list option"
  skip_tags :: "string list option"

record task_result =
  tr_name :: string
  tr_status :: string
  tr_output :: string
  tr_error :: "string option"
  tr_changed :: bool
  tr_facts :: "(string, pyval) dict option"

record handler_result =
  h_status :: "string option"
  h_output :: "string option"
  h_error :: "string option"
  h_changed :: "bool option"
  h_facts :: "(string, pyval) dict option"

type_synonym 'w handler =
  "(string, pyval) dict \<Rightarrow> host \<Rightarrow> run_config \<Rightarrow> 'w \<Rightarrow> (py_error + handler_result option) \<times> 'w"

text \<open>The rows of the table \<open>task_executions\<close>, and the state that a run threads through:
  the remote machines, the audit table, and the trace of what the orchestrator did.\<close>

record task_execution =
  te_run_id :: string
  te_host :: pyval
  te_task_name :: string
  te_task_type :: string
  te_status :: string
  te_output :: string
  te_error :: "string option"
  te_changed :: bool

datatype event =
    BatchStart nat nat
  | HostStart pyval
  | HostDone pyval
  | Sleep int

record 'w engine_state =
  world :: 'w
  task_executions :: "task_execution list"
  events :: "event list"

text \<open>
  \<open>AuditLogger.log_task_execution(self, host, task_config, task_result, run_id)\<close>: all four
  parameters are required. The argument \<open>run_id_arg\<close> is \<open>None\<close> when the caller passes no
  fourth argument; Python then raises \<open>TypeError\<close> while binding the arguments, before the
  body runs.
\<close>

definition log_task_execution ::
  "host \<Rightarrow> task_config \<Rightarrow> task_result \<Rightarrow> string option \<Rightarrow> task_execution list
     \<Rightarrow> py_error + task_execution list" where
  "log_task_execution h task_cfg task_res run_id_arg db =
     (case run_id_arg of
        None \<Rightarrow> Inl (TypeError
          (''AuditLogger.log_task_execution() missing 1 required positional argument: ''
             @ quoted (PStr ''run_id'')))
      | Some rid \<Rightarrow>
          Inr (db @
            [\<lparr>te_run_id = rid,
              te_host = dict_get h ''ansible_host'' (dict_get h ''name'' (PStr ''unknown'')),
              te_task_name = (case tc_name task_cfg of None \<Rightarrow> ''unnamed_task'' | Some n \<Rightarrow> n),
              te_task_type = (case tc_task task_cfg of None \<Rightarrow> ''command'' | Some t \<Rightarrow> t),
              te_status = tr_status task_res,
              te_output = tr_output task_res,
              te_error = tr_error task_res,
              te_changed = tr_changed task_res\<rparr>]))"

text \<open>\<open>_evaluate_condition\<close>: three placeholders are replaced by the quoted host values and
  the string is given to Python's \<open>eval\<close>, a parameter of the model. The bare \<open>except:\<close>
  turns every exception into \<open>False\<close>.\<close>

definition substitute_variables :: "string \<Rightarrow> host \<Rightarrow> string" where
  "substitute_variables condition h =
     (let c1 = str_replace condition ''{{ ansible_host }}''
                 (quoted (dict_get h ''ansible_host'' (PStr [])));
          c2 = str_replace c1 ''{{ splunk_type }}'' (quoted (dict_get h ''splunk_type'' (PStr [])));
          c3 = str_replace c2 ''{{ os_family }}'' (quoted (dict_get h ''os_family'' (PStr [])))
      in c3)"

definition evaluate_condition ::
  "(string \<Rightarrow> py_error + pyval) \<Rightarrow> string \<Rightarrow> host \<Rightarrow> pyval" where
  "evaluate_condition ev condition h =
     (case ev (substitute_variables condition h) of Inl e \<Rightarrow> PBool False | Inr v \<Rightarrow> v)"

definition should_skip_task ::
  "(string \<Rightarrow> py_error + pyval) \<Rightarrow> task_config \<Rightarrow> host \<Rightarrow> run_config \<Rightarrow> bool" where
  "should_skip_task ev task_cfg h cfg =
     (if (case tc_when task_cfg of
            None \<Rightarrow> False
          | Some w \<Rightarrow> w \<noteq> [] \<and> \<not> truthy (evaluate_condition ev w h)) then True
      else if (case tc_only_if task_cfg of
            None \<Rightarrow> False
          | Some c \<Rightarrow> c \<noteq> [] \<and> \<not> truthy (evaluate_condition ev c h)) then True
      else
        (let task_tags = (case tc_tags task_cfg of None \<Rightarrow> [] | Some ts \<Rightarrow> ts)
         in if (case tags cfg of
                  None \<Rightarrow> False
                | Some ts \<Rightarrow> ts \<noteq> [] \<and> \<not> list_ex (\<lambda>tag. tag \<in> set task_tags) ts) then True
            else if (case skip_tags cfg of
                  None \<Rightarrow> False
                | Some ts \<Rightarrow> ts \<noteq> [] \<and> list_ex (\<lambda>tag. tag \<in> set task_tags) ts) then True
            else False))"

text \<open>The \<open>TaskResult\<close> of the \<open>except Exception\<close> branch of \<open>execute_task\<close>.\<close>

definition failed_result :: "string \<Rightarrow> py_error \<Rightarrow> task_result" where
  "failed_result task_name e =
     \<lparr>tr_name = task_name, tr_status = ''failed'', tr_output = [],
      tr_error = Some (error_str e), tr_changed = False, tr_facts = None\<rparr>"

definition skipped_result :: "string \<Rightarrow> task_result" where
  "skipped_result task_name =
     \<lparr>tr_name = task_name, tr_status = ''skipped'', tr_output = ''Task skipped due to condition'',
      tr_error = None, tr_changed = False, tr_facts = None\<rparr>"

text \<open>
  \<open>execute_task\<close>. The registry \<open>self.task_types\<close> is the argument \<open>task_types\<close>. Everything
  after the skip test runs inside \<open>try\<close>: an unknown type, an exception of the handler, a
  handler that returned \<open>None\<close> (\<open>result.get\<close> fails) and an exception of the audit call
  all end in the \<open>except\<close> branch. The audit call passes three arguments.
\<close>

definition execute_task ::
  "(string \<Rightarrow> 'w handler option) \<Rightarrow> (string \<Rightarrow> py_error + pyval) \<Rightarrow> task_config \<Rightarrow> host
     \<Rightarrow> run_config \<Rightarrow> 'w engine_state \<Rightarrow> task_result \<times> 'w engine_state" where
  "execute_task task_types ev task_cfg h cfg st =
     (let task_name = (case tc_name task_cfg of None \<Rightarrow> ''unnamed_task'' | Some n \<Rightarrow> n);
          task_type = (case tc_task task_cfg of None \<Rightarrow> ''command'' | Some t \<Rightarrow> t);
          args = (case tc_args task_cfg of None \<Rightarrow> [] | Some a \<Rightarrow> a)
      in if should_skip_task ev task_cfg h cfg then (skipped_result task_name, st)
         else
           (case task_types task_type of
              None \<Rightarrow>
                (failed_result task_name (ValueError (''Unknown task type: '' @ task_type)), st)
            | Some handler \<Rightarrow>
                (case handler args h cfg (world st) of
                   (Inl e, w') \<Rightarrow> (failed_result task_name e, st\<lparr>world := w'\<rparr>)
                 | (Inr None, w') \<Rightarrow>
                     (failed_result task_name
                        (AttributeError
                          (quoted (PStr ''NoneType'') @ '' object has no attribute ''
                             @ quoted (PStr ''get''))),
                      st\<lparr>world := w'\<rparr>)
                 | (Inr (Some result), w') \<Rightarrow>
                     (let task_res =
                            \<lparr>tr_name = task_name,
                             tr_status = (case h_status result of None \<Rightarrow> ''success'' | Some s \<Rightarrow> s),
                             tr_output = (case h_output result of None \<Rightarrow> [] | Some out \<Rightarrow> out),
                             tr_error = h_error result,
                             tr_changed = (case h_changed result of None \<Rightarrow> False | Some c \<Rightarrow> c),
                             tr_facts = (case h_facts result of None \<Rightarrow> Some [] | Some f \<Rightarrow> Some f)\<rparr>
                      in case log_task_execution h task_cfg task_res None (task_executions st) of
                           Inl e \<Rightarrow> (failed_result task_name e, st\<lparr>world := w'\<rparr>)
                         | Inr db \<Rightarrow> (task_res, st\<lparr>world := w', task_executions := db\<rparr>)))))"

text \<open>
  The built-in handlers \<open>_execute_command\<close> and \<open>_execute_file\<close>. Both read the result of
  \<open>SSHExecutor.execute_command\<close> with \<open>result['exit_code']\<close>; \<open>SSHResult\<close> is a dataclass
  without \<open>__getitem__\<close>, so the subscript raises \<open>TypeError\<close>. The commands have run on
  the host by then. The command text is \<open>str\<close> of the argument, and a \<open>timeout\<close> that is not
  an integer reads as the default.
\<close>

definition ssh_result_getitem :: "ssh_result \<Rightarrow> string \<Rightarrow> py_error + pyval" where
  "ssh_result_getitem r key = Inl (TypeError (quoted (PStr ''SSHResult'') @ '' object is not subscriptable''))"

definition exit_status_result :: "ssh_result \<Rightarrow> py_error + handler_result option" where
  "exit_status_result r =
     (case ssh_result_getitem r ''exit_code'' of
        Inl e \<Rightarrow> Inl e
      | Inr ec \<Rightarrow>
          (case ssh_result_getitem r ''stdout'' of
             Inl e \<Rightarrow> Inl e
           | Inr out \<Rightarrow>
               (case ssh_result_getitem r ''stderr'' of
                  Inl e \<Rightarrow> Inl e
                | Inr err \<Rightarrow>
                    Inr (Some \<lparr>h_status = Some (if ec = PInt 0 then ''success'' else ''failed''),
                               h_output = Some (py_str out),
                               h_error = (if ec \<noteq> PInt 0 then Some (py_str err) else None),
                               h_changed = Some True,
                               h_facts = None\<rparr>))))"

definition execute_command_handler :: "'w remote \<Rightarrow> 'w handler" where
  "execute_command_handler remote args h cfg w =
     (let cmd = dict_get args ''cmd'' PNone
      in if \<not> truthy cmd then (Inl (ValueError ''Command not specified''), w)
         else
           (let timeout = (case dict_get args ''timeout'' (PInt 300) of PInt t \<Rightarrow> t | _ \<Rightarrow> 300)
            in case execute_command remote h (py_str cmd) timeout w of
                 (result, w1) \<Rightarrow> (exit_status_result result, w1)))"

definition execute_file :: "'w remote \<Rightarrow> 'w handler" where
  "execute_file remote args h cfg w =
     (let path = dict_get args ''path'' PNone;
          state = dict_get args ''state'' (PStr ''present'')
      in if state = PStr ''present'' then
           (let cmd =
                  (if truthy (dict_get args ''directory'' (PBool False))
                   then ''mkdir -p '' @ py_str path
                   else ''echo '' @ quoted (dict_get args ''content'' (PStr [])) @ '' > '' @ py_str path)
            in case execute_command remote h cmd 300 w of (result, w1) \<Rightarrow>
                 (let w2 = (if truthy (dict_get args ''owner'' PNone)
                            then snd (execute_command remote h
                                   (''chown '' @ py_str (dict_get args ''owner'' PNone) @ '' '' @ py_str path)
                                   300 w1)
                            else w1);
                      w3 = (if truthy (dict_get args ''group'' PNone)
                            then snd (execute_command remote h
                                   (''chgrp '' @ py_str (dict_get args ''group'' PNone) @ '' '' @ py_str path)
                                   300 w2)
                            else w2);
                      w4 = (if truthy (dict_get args ''mode'' PNone)
                            then snd (execute_command remote h
                                   (''chmod '' @ py_str (dict_get args ''mode'' PNone) @ '' '' @ py_str path)
                                   300 w3)
                            else w3)
                  in (exit_status_result result, w4)))
         else if state = PStr ''absent'' then
           (case execute_command remote h (''rm -rf '' @ py_str path) 300 w of
              (result, w1) \<Rightarrow> (exit_status_result result, w1))
         else (Inr None, w))"

text \<open>The registry of \<open>TaskRunner.__init__\<close>: the two handlers above, the other entries
  being the argument \<open>others\<close>.\<close>

definition task_types :: "'w remote \<Rightarrow> (string \<Rightarrow> 'w handler option) \<Rightarrow> string \<Rightarrow> 'w handler option" where
  "task_types remote others =
     others(''command'' \<mapsto> execute_command_handler remote, ''file'' \<mapsto> execute_file remote)"


section \<open>Orchestrator (core/orchestrator.py)\<close>

text \<open>
  The result of one host is the mapping \<open>host_results\<close> with the keys \<open>status\<close>, \<open>tasks\<close>
  and \<open>error\<close> (times left out); the playbook is the loaded document, of which the
  orchestrator reads \<open>tasks\<close> and the keys of \<open>execution\<close>.
\<close>

record host_result =
  hr_status :: string
  hr_tasks :: "task_result list"
  hr_error :: "string option"

record playbook =
  pb_tasks :: "task_config list"
  pb_strategy :: "string option"
  pb_batch_size :: "int option"
  pb_batch_delay :: "int option"


text \<open>\<open>_execute_host_tasks\<close> reads the outcome of a task with \<open>task_result.get('status')\<close>.
  \<open>TaskResult\<close> is a dataclass and has no method \<open>get\<close>: the attribute lookup raises.\<close>

definition task_result_get :: "task_result \<Rightarrow> string \<Rightarrow> py_error + pyval" where
  "task_result_get r key =
     Inl (AttributeError
            (quoted (PStr ''TaskResult'') @ '' object has no attribute '' @ quoted (PStr ''get'')))"

text \<open>The loop of \<open>_execute_host_tasks\<close>. It returns the exception that left the loop, if
  any, with \<open>host_results\<close> and the state as they were at that point.\<close>

fun run_tasks ::
  "(string \<Rightarrow> 'w handler option) \<Rightarrow> (string \<Rightarrow> py_error + pyval) \<Rightarrow> host \<Rightarrow> run_config
     \<Rightarrow> task_config list \<Rightarrow> host_result \<Rightarrow> 'w engine_state
     \<Rightarrow> py_error option \<times> host_result \<times> 'w engine_state" where
  "run_tasks tt ev h cfg [] hr st = (None, hr, st)"
| "run_tasks tt ev h cfg (task_cfg # rest) hr st =
     (case execute_task tt ev task_cfg h cfg st of (task_res, st1) \<Rightarrow>
        (let hr1 = hr\<lparr>hr_tasks := hr_tasks hr @ [task_res]\<rparr>
         in case task_result_get task_res ''status'' of
              Inl e \<Rightarrow> (Some e, hr1, st1)
            | Inr v \<Rightarrow>
                if v = PStr ''failed'' then
                  (case task_result_get task_res ''error'' of
                     Inl e \<Rightarrow> (Some e, hr1\<lparr>hr_status := ''failed''\<rparr>, st1)
                   | Inr err \<Rightarrow>
                       (None,
                        hr1\<lparr>hr_status := ''failed'',
                            hr_error := (case err of PStr m \<Rightarrow> Some m | _ \<Rightarrow> None)\<rparr>,
                        st1))
                else run_tasks tt ev h cfg rest hr1 st1))"

definition execute_host_tasks ::
  "(string \<Rightarrow> 'w handler option) \<Rightarrow> (string \<Rightarrow> py_error + pyval) \<Rightarrow> playbook \<Rightarrow> host
     \<Rightarrow> run_config \<Rightarrow> 'w engine_state \<Rightarrow> host_result \<times> 'w engine_state" where
  "execute_host_tasks tt ev pb h cfg st =
     (case run_tasks tt ev h cfg (pb_tasks pb)
             \<lparr>hr_status = ''success'', hr_tasks = [], hr_error = None\<rparr> st of
        (None, hr, st') \<Rightarrow> (hr, st')
      | (Some e, hr, st') \<Rightarrow> (hr\<lparr>hr_status := ''failed'', hr_error := Some (error_str e)\<rparr>, st'))"

definition host_id :: "host \<Rightarrow> pyval" where
  "host_id h = dict_get h ''ansible_host'' (dict_get h ''name'' PNone)"

definition emit :: "event \<Rightarrow> 'w engine_state \<Rightarrow> 'w engine_state" where
  "emit e st = st\<lparr>events := events st @ [e]\<rparr>"

text \<open>The inner loop of \<open>_execute_rolling\<close>: the hosts of a batch one after the other. The
  trace records the call of \<open>_execute_host_tasks\<close> and its return.\<close>

fun run_batch ::
  "(string \<Rightarrow> 'w handler option) \<Rightarrow> (string \<Rightarrow> py_error + pyval) \<Rightarrow> playbook \<Rightarrow> run_config
     \<Rightarrow> host list \<Rightarrow> (pyval, host_result) dict \<Rightarrow> 'w engine_state
     \<Rightarrow> (pyval, host_result) dict \<times> 'w engine_state" where
  "run_batch tt ev pb cfg [] batch_results st = (batch_results, st)"
| "run_batch tt ev pb cfg (h # rest) batch_results st =
     (case execute_host_tasks tt ev pb h cfg (emit (HostStart (host_id h)) st) of
        (host_res, st1) \<Rightarrow>
          run_batch tt ev pb cfg rest (dict_set (host_id h) host_res batch_results)
            (emit (HostDone (host_id h)) st1))"

definition dict_update :: "('k, 'v) dict \<Rightarrow> ('k, 'v) dict \<Rightarrow> ('k, 'v) dict" where
  "dict_update d other = fold (\<lambda>(k, v). dict_set k v) other d"

text \<open>The outer loop, \<open>for i in range(0, len(hosts), batch_size)\<close>, for a positive step.\<close>

function rolling_loop ::
  "(string \<Rightarrow> 'w handler option) \<Rightarrow> (string \<Rightarrow> py_error + pyval) \<Rightarrow> playbook \<Rightarrow> run_config
     \<Rightarrow> host list \<Rightarrow> nat \<Rightarrow> int \<Rightarrow> nat \<Rightarrow> (pyval, host_result) dict \<Rightarrow> 'w engine_state
     \<Rightarrow> (pyval, host_result) dict \<times> 'w engine_state" where
  "rolling_loop tt ev pb cfg hs bs delay i res st =
     (if 0 < bs \<and> i < length hs then
        (let batch = take bs (drop i hs);
             st1 = emit (BatchStart (i div bs + 1) (length batch)) st
         in case run_batch tt ev pb cfg batch [] st1 of (batch_results, st2) \<Rightarrow>
              (let res1 = dict_update res batch_results;
                   st3 = (if i + bs < length hs then emit (Sleep delay) st2 else st2)
               in rolling_loop tt ev pb cfg hs bs delay (i + bs) res1 st3))
      else (res, st))"
  by pat_completeness auto
termination
  by (relation "measure (\<lambda>(tt, ev, pb, cfg, hs, bs, delay, i, res, st). length hs - i)") auto

text \<open>\<open>_execute_rolling\<close>: \<open>range\<close> raises \<open>ValueError\<close> for the step 0 and is empty for a
  negative step.\<close>

definition execute_rolling ::
  "(string \<Rightarrow> 'w handler option) \<Rightarrow> (string \<Rightarrow> py_error + pyval) \<Rightarrow> playbook \<Rightarrow> host list
     \<Rightarrow> run_config \<Rightarrow> int \<Rightarrow> int \<Rightarrow> 'w engine_state
     \<Rightarrow> (py_error + (pyval, host_result) dict) \<times> 'w engine_state" where
  "execute_rolling tt ev pb hs cfg bsize delay st =
     (if bsize = 0 then (Inl (ValueError ''range() arg 3 must not be zero''), st)
      else if bsize < 0 then (Inr [], st)
      else (case rolling_loop tt ev pb cfg hs (nat bsize) delay 0 [] st of
              (res, st') \<Rightarrow> (Inr res, st')))"









section \<open>The rolling strategy as the specification words it\<close>

text \<open>
  The hosts are partitioned into consecutive batches of the batch size; the hosts of a
  batch are executed; the delay is waited before the next batch, and not after the last.
  \<open>rolling_spec\<close> is the trace this describes, for comparison with the trace of
  \<open>execute_rolling\<close>.
\<close>

function chunks :: "nat \<Rightarrow> 'a list \<Rightarrow> 'a list list" where
  "chunks n xs = (if n = 0 \<or> xs = [] then [] else take n xs # chunks n (drop n xs))"
  by pat_completeness auto
termination
  by (relation "measure (\<lambda>(n, xs). length xs)") auto

definition batch_events :: "nat \<Rightarrow> host list \<Rightarrow> event list" where
  "batch_events k batch =
     BatchStart k (length batch) #
       concat (map (\<lambda>h. [HostStart (host_id h), HostDone (host_id h)]) batch)"

fun rolling_spec :: "nat \<Rightarrow> int \<Rightarrow> host list list \<Rightarrow> event list" where
  "rolling_spec k delay [] = []"
| "rolling_spec k delay [b] = batch_events k b"
| "rolling_spec k delay (b # b' # bs) =
     batch_events k b @ [Sleep delay] @ rolling_spec (Suc k) delay (b' # bs)"

fun is_batch_start :: "event \<Rightarrow> bool" where
  "is_batch_start (BatchStart k n) = True"
| "is_batch_start e = False"

fun is_sleep :: "event \<Rightarrow> bool" where
  "is_sleep (Sleep d) = True"
| "is_sleep e = False"



section \<open>Example hosts, tasks and remote sides\<close>

definition web01 :: host where
  "web01 = [(''name'', PStr ''web-01''), (''ansible_host'', PStr ''10.0.0.1''),
            (''os_family'', PStr ''RedHat'')]"

definition default_config :: run_config where
  "default_config =
     \<lparr>limit = None, forks = 10, batch_size = 10, batch_delay = 300, tags = None,
      skip_tags = None\<rparr>"

definition web02 :: host where
  "web02 = [(''name'', PStr ''web-02''), (''ansible_host'', PStr ''10.0.0.2'')]"

definition web03 :: host where
  "web03 = [(''name'', PStr ''web-03''), (''ansible_host'', PStr ''10.0.0.3'')]"
definition initial_state :: "'w \<Rightarrow> 'w engine_state" where
  "initial_state w = \<lparr>world = w, task_executions = [], events = []\<rparr>"

text \<open>A remote side that records every command it is given; \<open>false\<close> exits with 1.\<close>

definition recording_remote :: "(pyval \<times> string) list remote" where
  "recording_remote w h command timeout =
     ((if command = ''false'' then Exited 1 [] [] else Exited 0 [] []),
      w @ [(host_id h, command)])"



text \<open>An \<open>eval\<close> for which the name \<open>RedHat\<close> is not defined.\<close>

definition name_error_eval :: "string \<Rightarrow> py_error + pyval" where
  "name_error_eval s =
     (if s = quoted (PStr ''RedHat'') @ '' == RedHat''
      then Inl (OtherError ''name RedHat is not defined'')
      else Inr (PBool True))"

definition guarded_task :: task_config where
  "guarded_task =
     \<lparr>tc_name = Some ''restart'', tc_task = Some ''command'',
      tc_args = Some [(''cmd'', PStr ''systemctl restart splunk'')],
      tc_when = Some ''{{ os_family }} == RedHat'', tc_only_if = None, tc_tags = None,
      tc_ignore_errors = None\<rparr>"

definition task_a :: task_config where
  "task_a =
     \<lparr>tc_name = Some ''A'', tc_task = Some ''command'', tc_args = Some [(''cmd'', PStr ''false'')],
      tc_when = None, tc_only_if = None, tc_tags = None, tc_ignore_errors = Some True\<rparr>"

definition task_b :: task_config where
  "task_b =
     \<lparr>tc_name = Some ''B'', tc_task = Some ''command'',
      tc_args = Some [(''cmd'', PStr ''touch /tmp/b'')],
      tc_when = None, tc_only_if = None, tc_tags = None, tc_ignore_errors = None\<rparr>"

definition two_task_playbook :: playbook where
  "two_task_playbook =
     \<lparr>pb_tasks = [task_a, task_b], pb_strategy = None, pb_batch_size = None,
      pb_batch_delay = None\<rparr>"

definition echo_playbook :: playbook where
  "echo_playbook =
     \<lparr>pb_tasks = [\<lparr>tc_name = Some ''say ok'', tc_task = Some ''command'',
                    tc_args = Some [(''cmd'', PStr ''echo ok'')], tc_when = None,
                    tc_only_if = None, tc_tags = None, tc_ignore_errors = None\<rparr>],
      pb_strategy = Some ''rolling'', pb_batch_size = None, pb_batch_delay = None\<rparr>"

text \<open>What \<open>_execute_checkpoint\<close> returns when its copies succeed.\<close>

definition checkpoint_stub :: "'w handler" where
  "checkpoint_stub args h cfg w =
     (Inr (Some \<lparr>h_status = Some ''success'', h_output = Some ''Checkpoint created: pre-upgrade'',
                 h_error = None, h_changed = Some True, h_facts = None\<rparr>), w)"

definition checkpoint_task :: task_config where
  "checkpoint_task =
     \<lparr>tc_name = Some ''snapshot'', tc_task = Some ''checkpoint'',
      tc_args = Some [(''checkpoint_name'', PStr ''pre-upgrade'')],
      tc_when = None, tc_only_if = None, tc_tags = None, tc_ignore_errors = None\<rparr>"




section \<open>Properties of the inventory\<close>

subsection \<open>What a successful call implies for the children\<close>

lemma child_loop_Inr_children:
  "child_loop n gs cs hs = Inr out \<Longrightarrow> c \<in> set cs \<Longrightarrow> \<exists>chs. get_group_hosts n gs (group_name c) = Inr chs"
  by (induction cs arbitrary: hs) (auto split: sum.splits)

lemma ggh_step:
  assumes "get_group_hosts (Suc n) gs g = Inr out" and "(g, c) \<in> child_rel gs"
  shows "\<exists>chs. get_group_hosts n gs c = Inr chs"
  using assms by (auto simp: child_rel_def dest: child_loop_Inr_children)

lemma ggh_path:
  assumes "(g, g') \<in> (child_rel gs)\<^sup>+" and "get_group_hosts n gs g = Inr out"
  shows "\<exists>m chs. m < n \<and> get_group_hosts m gs g' = Inr chs"
  using assms
proof induction
  case (base y)
  show ?case
  proof (cases n)
    case 0 with base show ?thesis by simp
  next
    case (Suc k)
    with base ggh_step[of k gs g out y] show ?thesis by auto
  qed
next
  case (step y z)
  then obtain m chs where m: "m < n" "get_group_hosts m gs y = Inr chs" by blast
  show ?case
  proof (cases m)
    case 0 with m show ?thesis by simp
  next
    case (Suc k)
    with m step.hyps(2) ggh_step[of k gs y chs z]
    obtain chs' where "get_group_hosts k gs z = Inr chs'" by auto
    moreover have "k < n" using m Suc by simp
    ultimately show ?thesis by blast
  qed
qed

lemma ggh_cycle_no_result:
  assumes "(g, g) \<in> (child_rel gs)\<^sup>+"
  shows "get_group_hosts n gs g \<noteq> Inr out"
proof (induction n arbitrary: out rule: less_induct)
  case (less n)
  show ?case
  proof
    assume "get_group_hosts n gs g = Inr out"
    from ggh_path[OF assms this] obtain m chs where "m < n" "get_group_hosts m gs g = Inr chs" by blast
    with less show False by blast
  qed
qed

lemma ggh_only_recursion_error:
  "get_group_hosts n gs g = Inl e \<Longrightarrow> e = RecursionError"
  "child_loop n gs cs hs = Inl e \<Longrightarrow> e = RecursionError"
  by (induction n gs g and n gs cs hs rule: get_group_hosts_child_loop.induct)
     (auto split: option.splits sum.splits)

lemma ggh_cycle:
  assumes "(g, g) \<in> (child_rel gs)\<^sup>+"
  shows "get_group_hosts n gs g = Inl RecursionError"
proof (cases "get_group_hosts n gs g")
  case (Inl e) then show ?thesis using ggh_only_recursion_error(1) by blast
next
  case (Inr out) then show ?thesis using ggh_cycle_no_result[OF assms] by blast
qed

subsection \<open>The returned hosts as a set\<close>






lemma ggh_reaches_cycle:
  assumes "(g, c) \<in> (child_rel gs)\<^sup>*" and "(c, c) \<in> (child_rel gs)\<^sup>+"
  shows "get_group_hosts n gs g = Inl RecursionError"
proof (cases "get_group_hosts n gs g")
  case (Inl e)
  then show ?thesis using ggh_only_recursion_error(1) by blast
next
  case (Inr out)
  from assms(1) have "g = c \<or> (g, c) \<in> (child_rel gs)\<^sup>+" by (auto simp: rtrancl_eq_or_trancl)
  then have "\<exists>m chs. get_group_hosts m gs c = Inr chs"
    using Inr ggh_path[of g c gs n out] by blast
  with ggh_cycle_no_result[OF assms(2)] show ?thesis by blast
qed


subsection \<open>The two documents, loaded\<close>


lemma nested_same_name_groups:
  "groups (parse_inventory nested_same_name_doc empty_inventory) =
     [(''web'', Group ''web'' [] [Group ''web'' [parse_host ''web-01'' []] [] []] []),
      (''all'', Group ''all'' []
         [Group ''web'' [] [Group ''web'' [parse_host ''web-01'' []] [] []] []] [])]"
  by (simp add: parse_inventory_def nested_same_name_doc_def empty_inventory_def Let_def)

lemma nested_same_name_cycle:
  "(''web'', ''web'') \<in> child_rel (groups (parse_inventory nested_same_name_doc empty_inventory))"
  "(''all'', ''web'') \<in> child_rel (groups (parse_inventory nested_same_name_doc empty_inventory))"
  by (simp_all add: nested_same_name_groups child_rel_def)

lemma add_group_self_reference:
  "get_group_hosts n
     (groups (add_group (Group ''loop'' [] [Group ''loop'' [] [] []] []) empty_inventory)) ''loop''
     = Inl RecursionError"
proof (rule ggh_cycle, rule r_into_trancl)
  show "(''loop'', ''loop'') \<in> child_rel
          (groups (add_group (Group ''loop'' [] [Group ''loop'' [] [] []] []) empty_inventory))"
    by (simp add: add_group_def empty_inventory_def child_rel_def)
qed




text \<open>
  C9 (amended). \<open>get_group_hosts\<close> does not detect cycles. When a group on a cycle of child
  references is reachable from \<open>g\<close>, the call never yields a host list: whatever the
  depth of stack available, it ends in Python's \<open>RecursionError\<close>.
\<close>

theorem get_group_hosts_cycle_recursion_error:
  assumes "(g, c) \<in> (child_rel gs)\<^sup>*" and "(c, c) \<in> (child_rel gs)\<^sup>+"
  shows "get_group_hosts depth gs g = Inl RecursionError"
  using assms by (rule ggh_reaches_cycle)

theorem get_group_hosts_cycle_recursion_error_witness:
  "get_group_hosts 1000 (groups (parse_inventory nested_same_name_doc empty_inventory)) ''web''
     = Inl RecursionError"
  by (rule get_group_hosts_cycle_recursion_error[of _ "''web''"])
     (auto intro: nested_same_name_cycle)

text \<open>
  C9 as stated fails: a document in which the group \<open>web\<close> has a child group \<open>web\<close> loads
  into a table whose entry \<open>web\<close> refers to itself, and the resolution of \<open>all\<close> ends in
  \<open>RecursionError\<close>; no cycle is reported.
\<close>

theorem get_group_hosts_cycle_from_document:
  "get_group_hosts 1000 (groups (parse_inventory nested_same_name_doc empty_inventory)) ''all''
     = Inl RecursionError"
  by (rule ggh_reaches_cycle[of _ "''web''"]) (auto intro: nested_same_name_cycle)


section \<open>Properties of the secrets manager\<close>

lemma get_secret_total: "\<exists>v. get_secret mgr environ key backend_arg = Inr v"
  by (auto simp: get_secret_def Let_def split: option.splits sum.splits)

text \<open>
  C7 (amended). A failure of the backend does not reach the caller of
  \<open>SecretsManager.get_secret\<close> as an exception: when the Vault server cannot be reached or
  refuses the token, the call returns \<open>None\<close>, the value it also returns for a secret that
  does not exist.
\<close>

theorem get_secret_backend_failure_is_none:
  assumes "map_of (backends mgr) bn = Some (Some (VaultSecretsBackend srv vault_path))"
    and "bn \<noteq> []"
    and "get_client srv = Inl e"
  shows "get_secret mgr environ key (Some bn) = Inr None"
  using assms by (simp add: get_secret_def backend_get_secret_def)

theorem get_secret_backend_failure_is_none_witness:
  "get_secret (vault_manager Unreachable) [] ''db_password'' (Some ''vault'') = Inr None"
  using get_secret_backend_failure_is_none[of "vault_manager Unreachable" "''vault''" Unreachable
          "''secret/siemply''" "OtherError ''connection refused''" "[]" "''db_password''"]
  by (simp add: vault_manager_def get_client_def)

text \<open>C7 as stated fails: with the server down and with the server up but the key missing,
  the caller receives the same \<open>None\<close>, and no error that names the backend.\<close>

theorem get_secret_unavailable_like_not_found:
  "get_secret (vault_manager Unreachable) [] ''db_password'' (Some ''vault'') = Inr None
   \<and> get_secret (vault_manager (Serving [])) [] ''db_password'' (Some ''vault'') = Inr None"
  by (simp add: get_secret_def backend_get_secret_def vault_manager_def get_client_def
        read_secret_version_def)


section \<open>Properties of remote execution\<close>

text \<open>
  C6 (amended). When the command runs into its deadline, \<open>execute_command\<close> returns a
  result with the exit code 124, an empty \<open>stdout\<close> and the timeout message as \<open>stderr\<close>;
  the output captured before the deadline is not part of the result.
\<close>

theorem execute_command_timeout:
  assumes "remote w h command timeout = (TimedOut partial_out partial_err, w')"
  shows "execute_command remote h command timeout w =
           (\<lparr>exit_code = 124, stdout = [],
             stderr = ''Command timed out after '' @ str_int timeout @ '' seconds''\<rparr>, w')"
  using assms by (simp add: execute_command_def)

theorem execute_command_timeout_witness:
  "execute_command slow_remote [(''ansible_host'', PStr ''web-01'')] ''make install'' 5 () =
     (\<lparr>exit_code = 124, stdout = [], stderr = ''Command timed out after 5 seconds''\<rparr>, ())"
  using execute_command_timeout[of slow_remote "()" "[(''ansible_host'', PStr ''web-01'')]"
          "''make install''" 5 "''step 1 done''" "''warning: slow disk''" "()"]
  by (simp add: slow_remote_def str_int_def)

text \<open>C6 as stated fails: the line printed before the deadline is not in the result.\<close>

theorem execute_command_timeout_loses_output:
  "\<not> sublist ''step 1 done''
       (stdout (fst (execute_command slow_remote [(''ansible_host'', PStr ''web-01'')]
                       ''make install'' 5 ())))"
  by (simp add: execute_command_def slow_remote_def)


section \<open>Properties of the task engine\<close>

lemma execute_task_task_executions:
  "task_executions (snd (execute_task tt ev task_cfg h cfg st)) = task_executions st"
  by (auto simp: execute_task_def log_task_execution_def Let_def
           split: option.splits sum.splits prod.splits)

lemma execute_task_events:
  "events (snd (execute_task tt ev task_cfg h cfg st)) = events st"
  by (auto simp: execute_task_def log_task_execution_def Let_def
           split: option.splits sum.splits prod.splits)


lemma exit_status_result_raises:
  "exit_status_result r = Inl (TypeError (quoted (PStr ''SSHResult'') @ '' object is not subscriptable''))"
  by (simp add: exit_status_result_def ssh_result_getitem_def)

text \<open>
  C10. When the \<open>when\<close> or the \<open>only_if\<close> condition of a task raises during evaluation,
  \<open>_evaluate_condition\<close> returns \<open>False\<close> and \<open>execute_task\<close> returns the skipped result
  (status \<open>skipped\<close>), whatever the registry of handlers holds, and leaves the remote
  machines and the audit table as they were.
\<close>

theorem condition_error_skips_task:
  assumes "tc_when task_cfg = Some c \<or> tc_only_if task_cfg = Some c"
    and "c \<noteq> []"
    and "ev (substitute_variables c h) = Inl e"
  shows "evaluate_condition ev c h = PBool False \<and>
         execute_task tt ev task_cfg h cfg st =
           (skipped_result (case tc_name task_cfg of None \<Rightarrow> ''unnamed_task'' | Some n \<Rightarrow> n), st)"
proof -
  have f: "evaluate_condition ev c h = PBool False"
    using assms(3) by (simp add: evaluate_condition_def)
  then have "should_skip_task ev task_cfg h cfg"
    using assms(1,2) by (auto simp: should_skip_task_def split: option.splits)
  with f show ?thesis by (simp add: execute_task_def)
qed

theorem condition_error_skips_task_witness:
  "evaluate_condition name_error_eval ''{{ os_family }} == RedHat'' web01 = PBool False \<and>
   execute_task (task_types recording_remote Map.empty) name_error_eval guarded_task web01
       default_config (initial_state []) =
     (skipped_result ''restart'', initial_state [])"
  using condition_error_skips_task[of guarded_task "''{{ os_family }} == RedHat''" name_error_eval web01
          "OtherError ''name RedHat is not defined''" "task_types recording_remote Map.empty"
          default_config "initial_state []"]
  by (simp add: guarded_task_def name_error_eval_def substitute_variables_def str_replace_def
        web01_def dict_get_def quoted_def)

text \<open>
  C4, at two tasks. The handler of the first returns a successful result; the audit call
  that follows lacks the argument \<open>run_id\<close>, raises, and the task is reported as failed
  with nothing recorded. The second is skipped by its condition and returns before the
  audit call.
\<close>

theorem execute_task_records_nothing:
  "tr_status (fst (execute_task (task_types recording_remote [''checkpoint'' \<mapsto> checkpoint_stub])
                     name_error_eval checkpoint_task web01 default_config (initial_state [])))
     = ''failed''
   \<and> task_executions (snd (execute_task (task_types recording_remote [''checkpoint'' \<mapsto> checkpoint_stub])
                     name_error_eval checkpoint_task web01 default_config (initial_state []))) = []
   \<and> tr_status (fst (execute_task (task_types recording_remote Map.empty)
                     name_error_eval guarded_task web01 default_config (initial_state [])))
     = ''skipped''
   \<and> task_executions (snd (execute_task (task_types recording_remote Map.empty)
                     name_error_eval guarded_task web01 default_config (initial_state []))) = []"
  by (simp add: execute_task_def should_skip_task_def evaluate_condition_def checkpoint_task_def
        guarded_task_def task_types_def checkpoint_stub_def default_config_def initial_state_def
        log_task_execution_def failed_result_def skipped_result_def name_error_eval_def
        substitute_variables_def str_replace_def web01_def dict_get_def quoted_def)





section \<open>Properties of the orchestrator\<close>

lemma run_tasks_Cons:
  "run_tasks tt ev h cfg (task_cfg # rest) hr st =
     (case execute_task tt ev task_cfg h cfg st of
        (task_res, st1) \<Rightarrow>
          (Some (AttributeError (quoted (PStr ''TaskResult'') @ '' object has no attribute ''
                                  @ quoted (PStr ''get''))),
           hr\<lparr>hr_tasks := hr_tasks hr @ [task_res]\<rparr>, st1))"
  by (simp add: task_result_get_def split: prod.splits)

lemma execute_host_tasks_first_task_only:
  "execute_host_tasks tt ev (pb\<lparr>pb_tasks := task_cfg # rest\<rparr>) h cfg st =
   execute_host_tasks tt ev (pb\<lparr>pb_tasks := [task_cfg]\<rparr>) h cfg st"
  by (simp add: execute_host_tasks_def run_tasks_Cons del: run_tasks.simps(2))


lemma execute_host_tasks_events:
  "events (snd (execute_host_tasks tt ev pb h cfg st)) = events st"
proof (cases "pb_tasks pb")
  case Nil
  then show ?thesis by (simp add: execute_host_tasks_def)
next
  case (Cons t ts)
  then show ?thesis
    using execute_task_events[of tt ev t h cfg st]
    by (auto simp: execute_host_tasks_def run_tasks_Cons simp del: run_tasks.simps(2)
             split: prod.splits)
qed

lemma execute_host_tasks_task_executions:
  "task_executions (snd (execute_host_tasks tt ev pb h cfg st)) = task_executions st"
proof (cases "pb_tasks pb")
  case Nil
  then show ?thesis by (simp add: execute_host_tasks_def)
next
  case (Cons t ts)
  then show ?thesis
    using execute_task_task_executions[of tt ev t h cfg st]
    by (auto simp: execute_host_tasks_def run_tasks_Cons simp del: run_tasks.simps(2)
             split: prod.splits)
qed

text \<open>
  C3, at a host with the tasks \<open>A\<close> and \<open>B\<close>, where \<open>A\<close> runs \<open>false\<close> and carries
  \<open>ignore_errors\<close>: the host is reported as failed, \<open>A\<close> is the only task with a result,
  and \<open>false\<close> is the only command the host has seen.
\<close>

theorem failed_task_with_ignore_flag_stops_host:
  "hr_status (fst (execute_host_tasks (task_types recording_remote Map.empty) name_error_eval
                     two_task_playbook web01 default_config (initial_state []))) = ''failed''
   \<and> map tr_name (hr_tasks (fst (execute_host_tasks (task_types recording_remote Map.empty)
                     name_error_eval two_task_playbook web01 default_config (initial_state []))))
       = [''A'']
   \<and> world (snd (execute_host_tasks (task_types recording_remote Map.empty) name_error_eval
                     two_task_playbook web01 default_config (initial_state [])))
       = [(PStr ''10.0.0.1'', ''false'')]"
  by (simp add: execute_host_tasks_def run_tasks_Cons two_task_playbook_def task_a_def
        execute_task_def should_skip_task_def task_types_def execute_command_handler_def
        execute_command_def recording_remote_def exit_status_result_raises failed_result_def
        default_config_def initial_state_def dict_get_def host_id_def web01_def
        del: run_tasks.simps(2))

subsection \<open>Rolling execution\<close>

declare chunks.simps [simp del]

lemma chunks_Nil [simp]: "chunks n [] = []"
  by (simp add: chunks.simps)

lemma chunks_step: "0 < n \<Longrightarrow> xs \<noteq> [] \<Longrightarrow> chunks n xs = take n xs # chunks n (drop n xs)"
  by (subst chunks.simps) simp

lemma length_chunks: "0 < n \<Longrightarrow> length (chunks n xs) = (length xs + n - 1) div n"
proof (induction "length xs" arbitrary: xs rule: less_induct)
  case less
  show ?case
  proof (cases "xs = []")
    case True
    with less.prems show ?thesis by simp
  next
    case False
    then have "length (drop n xs) < length xs" using less.prems by simp
    then have ih: "length (chunks n (drop n xs)) = (length (drop n xs) + n - 1) div n"
      using less.hyps less.prems by blast
    show ?thesis
    proof (cases "length xs \<le> n")
      case True
      have "0 < length xs" using False by simp
      with True have e: "length xs + n - 1 = n + (length xs - 1)" and l: "length xs - 1 < n"
        by arith+
      have "(length xs + n - 1) div n = 1"
      proof -
        have "n \<noteq> 0" using less.prems by simp
        then have "(n + (length xs - 1)) div n = (length xs - 1) div n + 1"
          by (rule div_add_self1)
        with l show ?thesis unfolding e by simp
      qed
      with True False less.prems show ?thesis by (simp add: chunks_step)
    next
      case gt: False
      then have e: "length xs + n - 1 = (length xs - n + n - 1) + n" using less.prems by arith
      have "(length xs + n - 1) div n = (length xs - n + n - 1) div n + 1"
      proof -
        have "n \<noteq> 0" using less.prems by simp
        then show ?thesis unfolding e by (rule div_add_self2)
      qed
      with ih False less.prems show ?thesis by (simp add: chunks_step)
    qed
  qed
qed

lemma emit_events [simp]: "events (emit e st) = events st @ [e]"
  by (simp add: emit_def)

lemma emit_task_executions [simp]: "task_executions (emit e st) = task_executions st"
  by (simp add: emit_def)

lemma run_batch_events:
  "events (snd (run_batch tt ev pb cfg batch br st)) =
     events st @ concat (map (\<lambda>h. [HostStart (host_id h), HostDone (host_id h)]) batch)"
proof (induction batch arbitrary: br st)
  case Nil
  then show ?case by simp
next
  case (Cons h rest)
  obtain hr st1 where e: "execute_host_tasks tt ev pb h cfg (emit (HostStart (host_id h)) st) = (hr, st1)"
    by (cases "execute_host_tasks tt ev pb h cfg (emit (HostStart (host_id h)) st)")
  then have "events st1 = events st @ [HostStart (host_id h)]"
    using execute_host_tasks_events[of tt ev pb h cfg "emit (HostStart (host_id h)) st"] by simp
  with e Cons.IH show ?case by simp
qed

lemma run_batch_task_executions:
  "task_executions (snd (run_batch tt ev pb cfg batch br st)) = task_executions st"
proof (induction batch arbitrary: br st)
  case Nil
  then show ?case by simp
next
  case (Cons h rest)
  obtain hr st1 where e: "execute_host_tasks tt ev pb h cfg (emit (HostStart (host_id h)) st) = (hr, st1)"
    by (cases "execute_host_tasks tt ev pb h cfg (emit (HostStart (host_id h)) st)")
  then have "task_executions st1 = task_executions st"
    using execute_host_tasks_task_executions[of tt ev pb h cfg "emit (HostStart (host_id h)) st"] by simp
  with e Cons.IH show ?case by simp
qed

lemma rolling_spec_Cons:
  "rolling_spec k delay (b # bs) =
     (if bs = [] then batch_events k b
      else batch_events k b @ [Sleep delay] @ rolling_spec (Suc k) delay bs)"
  by (cases bs) simp_all

lemma chunks_eq_Nil: "0 < n \<Longrightarrow> chunks n xs = [] \<longleftrightarrow> xs = []"
  by (cases "xs = []") (simp_all add: chunks_step)

declare rolling_loop.simps [simp del]

lemma rolling_loop_events:
  assumes "0 < bs"
  shows "events (snd (rolling_loop tt ev pb cfg hs bs delay i res st)) =
           events st @ rolling_spec (i div bs + 1) delay (chunks bs (drop i hs))"
proof (induction "length hs - i" arbitrary: i res st rule: less_induct)
  case less
  show ?case
  proof (cases "i < length hs")
    case False
    then show ?thesis by (subst rolling_loop.simps) simp
  next
    case True
    let ?batch = "take bs (drop i hs)"
    let ?st1 = "emit (BatchStart (i div bs + 1) (length ?batch)) st"
    obtain br st2 where rb: "run_batch tt ev pb cfg ?batch [] ?st1 = (br, st2)"
      by (cases "run_batch tt ev pb cfg ?batch [] ?st1")
    let ?st3 = "if i + bs < length hs then emit (Sleep delay) st2 else st2"
    have ev2: "events st2 = events st @ batch_events (i div bs + 1) ?batch"
      using run_batch_events[of tt ev pb cfg ?batch "[]" ?st1] rb by (simp add: batch_events_def)
    have step: "rolling_loop tt ev pb cfg hs bs delay i res st =
                  rolling_loop tt ev pb cfg hs bs delay (i + bs) (dict_update res br) ?st3"
      using True assms rb by (subst rolling_loop.simps) (simp add: Let_def)
    have "length hs - (i + bs) < length hs - i" using True assms by arith
    then have ih: "events (snd (rolling_loop tt ev pb cfg hs bs delay (i + bs) (dict_update res br) ?st3)) =
                events ?st3 @ rolling_spec ((i + bs) div bs + 1) delay (chunks bs (drop (i + bs) hs))"
      by (rule less.hyps)
    have ch: "chunks bs (drop i hs) = ?batch # chunks bs (drop (i + bs) hs)"
      using True assms by (simp add: chunks_step add.commute)
    have nil: "chunks bs (drop (i + bs) hs) = [] \<longleftrightarrow> \<not> i + bs < length hs"
      using assms by (simp add: chunks_eq_Nil not_less)
    have "bs \<noteq> 0" using assms by simp
    then have "(i + bs) div bs = i div bs + 1" by (rule div_add_self2)
    then have k: "(i + bs) div bs + 1 = Suc (i div bs + 1)" by simp
    show ?thesis
      unfolding step ih ch rolling_spec_Cons k using ev2 nil by auto
  qed
qed

lemma rolling_loop_task_executions:
  assumes "0 < bs"
  shows "task_executions (snd (rolling_loop tt ev pb cfg hs bs delay i res st)) = task_executions st"
proof (induction "length hs - i" arbitrary: i res st rule: less_induct)
  case less
  show ?case
  proof (cases "i < length hs")
    case False
    then show ?thesis by (subst rolling_loop.simps) simp
  next
    case True
    let ?batch = "take bs (drop i hs)"
    let ?st1 = "emit (BatchStart (i div bs + 1) (length ?batch)) st"
    obtain br st2 where rb: "run_batch tt ev pb cfg ?batch [] ?st1 = (br, st2)"
      by (cases "run_batch tt ev pb cfg ?batch [] ?st1")
    let ?st3 = "if i + bs < length hs then emit (Sleep delay) st2 else st2"
    have t2: "task_executions st2 = task_executions st"
      using run_batch_task_executions[of tt ev pb cfg ?batch "[]" ?st1] rb by simp
    have step: "rolling_loop tt ev pb cfg hs bs delay i res st =
                  rolling_loop tt ev pb cfg hs bs delay (i + bs) (dict_update res br) ?st3"
      using True assms rb by (subst rolling_loop.simps) (simp add: Let_def)
    have "length hs - (i + bs) < length hs - i" using True assms by arith
    then have "task_executions (snd (rolling_loop tt ev pb cfg hs bs delay (i + bs) (dict_update res br) ?st3)) =
                task_executions ?st3"
      by (rule less.hyps)
    with t2 show ?thesis unfolding step by simp
  qed
qed

lemma rolling_spec_batch_starts:
  "length (filter is_batch_start (rolling_spec k delay bss)) = length bss"
  by (induction k delay bss rule: rolling_spec.induct) (simp_all add: batch_events_def filter_concat comp_def)

lemma rolling_spec_sleeps:
  "filter is_sleep (rolling_spec k delay bss) = replicate (length bss - 1) (Sleep delay)"
  by (induction k delay bss rule: rolling_spec.induct) (simp_all add: batch_events_def filter_concat comp_def)

lemma rolling_spec_last:
  "rolling_spec k delay bss \<noteq> [] \<Longrightarrow> \<not> is_sleep (last (rolling_spec k delay bss))"
proof (induction k delay bss rule: rolling_spec.induct)
  case (2 k delay b)
  then show ?case
    by (cases b rule: rev_cases) (simp_all add: batch_events_def)
next
  case (3 k delay b b' bs)
  have "rolling_spec (Suc k) delay (b' # bs) \<noteq> []"
    by (cases bs) (simp_all add: batch_events_def)
  with 3 show ?case by simp
qed simp

lemma ceil_div_bounds:
  assumes "0 < (b::nat)"
  shows "n \<le> ((n + b - 1) div b) * b \<and> ((n + b - 1) div b) * b < n + b"
proof -
  have "(n + b - 1) div b * b \<le> n + b - 1" by (rule div_times_less_eq_dividend)
  moreover have "n + b - 1 < b + (n + b - 1) div b * b"
    using assms by (rule dividend_less_div_times)
  ultimately show ?thesis using assms by arith
qed

text \<open>
  C5. For a positive batch size, \<open>execute_rolling\<close> returns, and what it did is the trace
  of the specification: the batches of the partition in order, every host of a batch
  called and returned before the next batch starts, the delay between two batches and
  no delay after the last. The number of batches \<open>m\<close> is \<open>\<lceil>N / B\<rceil>\<close>, that is
  \<open>N \<le> m * B < N + B\<close>.
\<close>

theorem rolling_batches:
  assumes "0 < bsize"
  shows "\<exists>res st' new.
           execute_rolling tt ev pb hs cfg bsize delay st = (Inr res, st')
         \<and> events st' = events st @ new
         \<and> new = rolling_spec 1 delay (chunks (nat bsize) hs)
         \<and> length (filter is_batch_start new) = (length hs + nat bsize - 1) div nat bsize
         \<and> length hs \<le> length (filter is_batch_start new) * nat bsize
         \<and> length (filter is_batch_start new) * nat bsize < length hs + nat bsize
         \<and> filter is_sleep new = replicate (length (filter is_batch_start new) - 1) (Sleep delay)
         \<and> (new = [] \<or> \<not> is_sleep (last new))"
proof -
  let ?b = "nat bsize"
  let ?new = "rolling_spec 1 delay (chunks ?b hs)"
  have b: "0 < ?b" using assms by simp
  obtain res st' where rl: "rolling_loop tt ev pb cfg hs ?b delay 0 [] st = (res, st')"
    by (cases "rolling_loop tt ev pb cfg hs ?b delay 0 [] st")
  then have 1: "execute_rolling tt ev pb hs cfg bsize delay st = (Inr res, st')"
    using assms by (simp add: execute_rolling_def)
  have 2: "events st' = events st @ ?new"
    using rolling_loop_events[OF b, of tt ev pb cfg hs delay 0 "[]" st] rl by simp
  have 3: "length (filter is_batch_start ?new) = (length hs + ?b - 1) div ?b"
    using b by (simp add: rolling_spec_batch_starts length_chunks)
  have 4: "filter is_sleep ?new = replicate (length (filter is_batch_start ?new) - 1) (Sleep delay)"
    by (simp add: rolling_spec_sleeps rolling_spec_batch_starts)
  have 5: "?new = [] \<or> \<not> is_sleep (last ?new)"
    using rolling_spec_last by blast
  from 1 2 3 4 5 ceil_div_bounds[OF b, of "length hs"] show ?thesis by auto
qed

theorem rolling_batches_witness:
  "events (snd (execute_rolling (task_types recording_remote Map.empty) name_error_eval echo_playbook
                  [web01, web02, web03] default_config 2 30 (initial_state []))) =
     [BatchStart 1 2, HostStart (PStr ''10.0.0.1''), HostDone (PStr ''10.0.0.1''),
      HostStart (PStr ''10.0.0.2''), HostDone (PStr ''10.0.0.2''), Sleep 30,
      BatchStart 2 1, HostStart (PStr ''10.0.0.3''), HostDone (PStr ''10.0.0.3'')]"
  using rolling_batches[of 2 "task_types recording_remote Map.empty" name_error_eval echo_playbook
          "[web01, web02, web03]" default_config 30 "initial_state []"]
  by (auto simp: initial_state_def chunks_step batch_events_def host_id_def dict_get_def
        web01_def web02_def web03_def numeral_2_eq_2)

subsection \<open>The status of a run\<close>














end
